theory Spec2Isabelle
  imports Main
begin

section \<open>The HTTP log exporter: line parsing and metric aggregation\<close>

text \<open>
  A shallow embedding of \<^verbatim>\<open>exporters/httplogexporter/httplogexporter.go\<close>: the four
  package-level regular expressions, \<^verbatim>\<open>parseLogLine\<close>, \<^verbatim>\<open>updateMetrics\<close> and the
  body of the line loop of \<^verbatim>\<open>scrapeContainerLogs\<close>.

  Go strings are byte sequences, and so is \<^typ>\<open>string\<close> here. Go's \<^verbatim>\<open>int\<close> is
  taken to be 64 bits wide (the platforms the exporter is built for); it is modelled by
  \<^typ>\<open>int\<close>, with the saturation of \<^verbatim>\<open>strconv.Atoi\<close> written out.
\<close>

subsection \<open>Character classes of the regular expressions\<close>

text \<open>
  Go's \<^verbatim>\<open>regexp\<close> classes are ASCII: \<^verbatim>\<open>\d\<close> is \<^verbatim>\<open>[0-9]\<close>, \<^verbatim>\<open>\s\<close> is
  \<^verbatim>\<open>[\t\n\f\r ]\<close>, \<^verbatim>\<open>\w\<close> is \<^verbatim>\<open>[0-9A-Za-z_]\<close>, and \<^verbatim>\<open>\S\<close> is the complement
  of \<^verbatim>\<open>\s\<close>.
\<close>

definition isDigit :: "char \<Rightarrow> bool" where
  "isDigit c = (48 \<le> (of_char c :: nat) \<and> (of_char c :: nat) \<le> 57)"

definition isSpace :: "char \<Rightarrow> bool" where
  "isSpace c = ((of_char c :: nat) = 9 \<or> (of_char c :: nat) = 10 \<or> (of_char c :: nat) = 12
     \<or> (of_char c :: nat) = 13 \<or> (of_char c :: nat) = 32)"

definition isWordChar :: "char \<Rightarrow> bool" where
  "isWordChar c = (isDigit c
     \<or> (65 \<le> (of_char c :: nat) \<and> (of_char c :: nat) \<le> 90)
     \<or> (of_char c :: nat) = 95
     \<or> (97 \<le> (of_char c :: nat) \<and> (of_char c :: nat) \<le> 122))"

datatype cclass =
    Lit char
  | Space
  | NotSpace
  | Digit
  | OneOf string
  | NoneOf string

fun cmatch :: "cclass \<Rightarrow> char \<Rightarrow> bool" where
  "cmatch (Lit a) c = (c = a)"
| "cmatch Space c = isSpace c"
| "cmatch NotSpace c = (\<not> isSpace c)"
| "cmatch Digit c = isDigit c"
| "cmatch (OneOf as) c = (c \<in> set as)"
| "cmatch (NoneOf as) c = (c \<notin> set as)"

subsection \<open>Regular expressions and leftmost-first matching\<close>

text \<open>
  The four patterns of the source use no alternation, and repeat single character
  classes only. A pattern is therefore the sequence of its tokens, read left to right:
  a class with a greedy repetition \<open>{lo,hi}\<close> (\<open>hi = None\<close> for unbounded), the
  brackets of a capture group, \<^verbatim>\<open>^\<close> and \<^verbatim>\<open>\b\<close>. No pattern nests groups.
\<close>

datatype item =
    Rep cclass nat "nat option"
  | Open
  | Close
  | BeginText
  | WordBoundary

abbreviation One :: "cclass \<Rightarrow> item" where
  "One c \<equiv> Rep c 1 (Some 1)"

abbreviation Plus :: "cclass \<Rightarrow> item" where
  "Plus c \<equiv> Rep c 1 None"

abbreviation Star :: "cclass \<Rightarrow> item" where
  "Star c \<equiv> Rep c 0 None"

definition first :: "string \<Rightarrow> char option" where
  "first s = (case s of [] \<Rightarrow> None | x # _ \<Rightarrow> Some x)"

definition isWordO :: "char option \<Rightarrow> bool" where
  "isWordO oc = (case oc of None \<Rightarrow> False | Some c \<Rightarrow> isWordChar c)"

text \<open>
  \<open>matchHere is prev s\<close> matches the pattern \<open>is\<close> at the front of \<open>s\<close>, where
  \<open>prev\<close> is the character before \<open>s\<close> in the text (\<open>None\<close> at the start of the text).
  It is the backtracking search whose first success Go's \<^verbatim>\<open>regexp\<close> returns
  (leftmost-first semantics): a greedy repetition takes one more character whenever it
  may, and gives it back only when the rest of the pattern fails. The result lists, for
  every token of the pattern, the characters that token consumed.
\<close>

fun matchHere :: "item list \<Rightarrow> char option \<Rightarrow> string \<Rightarrow> string list option" where
  "matchHere [] prev s = Some []"
| "matchHere (BeginText # is) prev s =
     (if prev = None then map_option (Cons []) (matchHere is prev s) else None)"
| "matchHere (WordBoundary # is) prev s =
     (if isWordO prev \<noteq> isWordO (first s) then map_option (Cons []) (matchHere is prev s)
      else None)"
| "matchHere (Open # is) prev s = map_option (Cons []) (matchHere is prev s)"
| "matchHere (Close # is) prev s = map_option (Cons []) (matchHere is prev s)"
| "matchHere (Rep c lo hi # is) prev [] =
     (if lo = 0 then map_option (Cons []) (matchHere is prev []) else None)"
| "matchHere (Rep c lo hi # is) prev (x # xs) =
     (case (if hi \<noteq> Some 0 \<and> cmatch c x
            then matchHere (Rep c (lo - 1) (map_option (\<lambda>h. h - 1) hi) # is) (Some x) xs
            else None) of
        Some (p # ps) \<Rightarrow> Some ((x # p) # ps)
      | _ \<Rightarrow> (if lo = 0 then map_option (Cons []) (matchHere is prev (x # xs)) else None))"

text \<open>
  The patterns are not anchored by the caller: the start positions are tried from the
  left, and the first position with a match wins.
\<close>

fun search :: "item list \<Rightarrow> char option \<Rightarrow> string \<Rightarrow> string list option" where
  "search is prev [] = matchHere is prev []"
| "search is prev (x # xs) =
     (case matchHere is prev (x # xs) of
        Some ps \<Rightarrow> Some ps
      | None \<Rightarrow> search is (Some x) xs)"

text \<open>
  The text of the capture groups, in the order of their opening brackets: a group's text
  is what the tokens between its brackets consumed.
\<close>

fun upToClose :: "item list \<Rightarrow> string list \<Rightarrow> string" where
  "upToClose (Close # is) ps = []"
| "upToClose (i # is) (p # ps) = p @ upToClose is ps"
| "upToClose _ _ = []"

fun groups :: "item list \<Rightarrow> string list \<Rightarrow> string list" where
  "groups (Open # is) (p # ps) = upToClose is ps # groups is ps"
| "groups (i # is) (p # ps) = groups is ps"
| "groups _ _ = []"

text \<open>
  \<^verbatim>\<open>re.FindStringSubmatch(s)\<close>: \<open>None\<close> is Go's \<^verbatim>\<open>nil\<close>; otherwise element 0 is the
  text of the whole match and element \<open>k\<close> the text of group \<open>k\<close>.
\<close>

definition FindStringSubmatch :: "item list \<Rightarrow> string \<Rightarrow> string list option" where
  "FindStringSubmatch re s =
     (case search re None s of
        None \<Rightarrow> None
      | Some ps \<Rightarrow> Some (concat ps # groups re ps))"

subsection \<open>The patterns\<close>

text \<open>\<^verbatim>\<open>^(\S+) \S+ \S+ \[([^\]]+)\] "(\S+) (\S+) \S+" (\d+) (\d+)\<close>\<close>

definition combinedLogPattern :: "item list" where
  "combinedLogPattern =
     [BeginText, Open, Plus NotSpace, Close, One (Lit CHR '' ''), Plus NotSpace,
      One (Lit CHR '' ''), Plus NotSpace, One (Lit CHR '' ''), One (Lit CHR ''[''),
      Open, Plus (NoneOf '']''), Close, One (Lit CHR '']''), One (Lit CHR '' ''),
      One (Lit CHR 0x22),
      Open, Plus NotSpace, Close, One (Lit CHR '' ''),
      Open, Plus NotSpace, Close, One (Lit CHR '' ''),
      Plus NotSpace, One (Lit CHR 0x22), One (Lit CHR '' ''),
      Open, Plus Digit, Close, One (Lit CHR '' ''),
      Open, Plus Digit, Close]"

text \<open>\<^verbatim>\<open>^(\S+) - - \[([^\]]+)\] "(\S+) (\S+) [^"]*" (\d+) (\d+)\<close>\<close>

definition commonLogPattern :: "item list" where
  "commonLogPattern =
     [BeginText, Open, Plus NotSpace, Close, One (Lit CHR '' ''), One (Lit CHR ''-''),
      One (Lit CHR '' ''), One (Lit CHR ''-''), One (Lit CHR '' ''), One (Lit CHR ''[''),
      Open, Plus (NoneOf '']''), Close, One (Lit CHR '']''), One (Lit CHR '' ''),
      One (Lit CHR 0x22),
      Open, Plus NotSpace, Close, One (Lit CHR '' ''),
      Open, Plus NotSpace, Close, One (Lit CHR '' ''),
      Star (NoneOf [CHR 0x22]), One (Lit CHR 0x22), One (Lit CHR '' ''),
      Open, Plus Digit, Close, One (Lit CHR '' ''),
      Open, Plus Digit, Close]"

text \<open>\<^verbatim>\<open>"status"\s*:\s*(\d+)\<close>\<close>

definition jsonLogPattern :: "item list" where
  "jsonLogPattern =
     [One (Lit CHR 0x22), One (Lit CHR ''s''), One (Lit CHR ''t''), One (Lit CHR ''a''),
      One (Lit CHR ''t''), One (Lit CHR ''u''), One (Lit CHR ''s''), One (Lit CHR 0x22),
      Star Space, One (Lit CHR '':''), Star Space,
      Open, Plus Digit, Close]"

text \<open>\<^verbatim>\<open>\b([45]\d{2})\b\<close>\<close>

definition statusCodePattern :: "item list" where
  "statusCodePattern =
     [WordBoundary, Open, One (OneOf ''45''), Rep Digit 2 (Some 2), Close, WordBoundary]"

subsection \<open>Integer conversions of \<^verbatim>\<open>strconv\<close>\<close>

text \<open>
  \<^verbatim>\<open>strconv.Atoi\<close> returns a value together with an error. A string that is not an
  optionally signed run of decimal digits gives \<open>0\<close> and a syntax error; a number outside
  the 64-bit range gives the nearest bound and a range error. The unsigned loop stops at
  the first character at which the accumulated value leaves the unsigned 64-bit range,
  as \<^verbatim>\<open>strconv.ParseUint\<close> does.
\<close>

datatype numError = ErrSyntax | ErrRange

definition maxUint64 :: nat where
  "maxUint64 = 2 ^ 64 - 1"

definition maxInt :: int where
  "maxInt = 2 ^ 63 - 1"

definition minInt :: int where
  "minInt = - (2 ^ 63)"

definition digitVal :: "char \<Rightarrow> nat" where
  "digitVal c = of_char c - 48"

fun ParseUint_loop :: "string \<Rightarrow> nat \<Rightarrow> nat \<times> numError option" where
  "ParseUint_loop [] n = (n, None)"
| "ParseUint_loop (c # cs) n =
     (if \<not> isDigit c then (0, Some ErrSyntax)
      else if maxUint64 div 10 + 1 \<le> n then (maxUint64, Some ErrRange)
      else if maxUint64 < n * 10 + digitVal c then (maxUint64, Some ErrRange)
      else ParseUint_loop cs (n * 10 + digitVal c))"

definition ParseUint :: "string \<Rightarrow> nat \<times> numError option" where
  "ParseUint s = (if s = [] then (0, Some ErrSyntax) else ParseUint_loop s 0)"

definition ParseInt :: "string \<Rightarrow> int \<times> numError option" where
  "ParseInt s =
     (case s of
        [] \<Rightarrow> (0, Some ErrSyntax)
      | c # cs \<Rightarrow>
          (let neg = (c = CHR ''-'');
               body = (if c = CHR ''+'' \<or> c = CHR ''-'' then cs else s)
           in case ParseUint body of
                (un, Some ErrSyntax) \<Rightarrow> (0, Some ErrSyntax)
              | (un, _) \<Rightarrow>
                  if \<not> neg \<and> 2 ^ 63 \<le> un then (maxInt, Some ErrRange)
                  else if neg \<and> 2 ^ 63 < un then (minInt, Some ErrRange)
                  else (if neg then - int un else int un, None)))"

definition Atoi :: "string \<Rightarrow> int \<times> numError option" where
  "Atoi s = ParseInt s"

function digitsOf :: "nat \<Rightarrow> string" where
  "digitsOf n =
     (if n < 10 then [char_of (48 + n)]
      else digitsOf (n div 10) @ [char_of (48 + n mod 10)])"
  by pat_completeness auto
termination
  by (relation "measure id") auto

definition Itoa :: "int \<Rightarrow> string" where
  "Itoa i = (if i < 0 then CHR ''-'' # digitsOf (nat (- i)) else digitsOf (nat i))"

subsection \<open>Log entries and the exporter\<close>

record LogEntry =
  Timestamp :: string
  Method :: string
  Path :: string
  StatusCode :: int
  ResponseSize :: int
  UserAgent :: string
  PodName :: string
  ContainerName :: string

text \<open>
  A counter family of the metrics registry maps the tuple of label values of a series to
  its count; a series exists once it has been asked for. \<^verbatim>\<open>WithLabelValues(...).Inc()\<close>
  creates the series at 0 if it is missing and adds 1. The families of the exporter are
  declared with four and five label names, which are the numbers of values
  \<^verbatim>\<open>updateMetrics\<close> passes; counts are natural numbers.
\<close>

type_synonym CounterVec = "string list \<rightharpoonup> nat"

definition counterValue :: "CounterVec \<Rightarrow> string list \<Rightarrow> nat" where
  "counterValue v lvs = (case v lvs of None \<Rightarrow> 0 | Some n \<Rightarrow> n)"

definition Inc :: "CounterVec \<Rightarrow> string list \<Rightarrow> CounterVec" where
  "Inc v lvs = v(lvs \<mapsto> counterValue v lvs + 1)"

text \<open>
  Of the exporter, the fields read or written by the functions below; the Kubernetes
  client, the scrape configuration and the scraper's own gauges are left out.
\<close>

record HTTPLogExporter =
  namespace :: string
  httpErrorsTotal :: CounterVec
  httpRequestsTotal :: CounterVec

subsection \<open>\<^verbatim>\<open>parseLogLine\<close>\<close>

text \<open>
  Indexing the slice of matches past its end would panic in Go; the model keeps that
  branch. \<open>Inr None\<close> is the \<^verbatim>\<open>nil\<close> entry. The error of \<^verbatim>\<open>Atoi\<close> is dropped, as
  the source's \<^verbatim>\<open>statusCode, _ := strconv.Atoi(...)\<close> does.
\<close>

datatype panic = IndexOutOfRange

definition parseLogLine ::
  "HTTPLogExporter \<Rightarrow> string \<Rightarrow> string \<Rightarrow> string \<Rightarrow> panic + LogEntry option" where
  "parseLogLine e line podName containerName =
     (case FindStringSubmatch combinedLogPattern line of
        Some matches \<Rightarrow>
          if length matches \<le> 6 then Inl IndexOutOfRange
          else Inr (Some \<lparr>Timestamp = matches ! 2, Method = matches ! 3, Path = matches ! 4,
                 StatusCode = fst (Atoi (matches ! 5)),
                 ResponseSize = fst (Atoi (matches ! 6)),
                 UserAgent = [], PodName = podName, ContainerName = containerName\<rparr>)
      | None \<Rightarrow>
     (case FindStringSubmatch commonLogPattern line of
        Some matches \<Rightarrow>
          if length matches \<le> 6 then Inl IndexOutOfRange
          else Inr (Some \<lparr>Timestamp = matches ! 2, Method = matches ! 3, Path = matches ! 4,
                 StatusCode = fst (Atoi (matches ! 5)),
                 ResponseSize = fst (Atoi (matches ! 6)),
                 UserAgent = [], PodName = podName, ContainerName = containerName\<rparr>)
      | None \<Rightarrow>
     (case FindStringSubmatch jsonLogPattern line of
        Some matches \<Rightarrow>
          if length matches \<le> 1 then Inl IndexOutOfRange
          else Inr (Some \<lparr>Timestamp = [], Method = [], Path = [],
                 StatusCode = fst (Atoi (matches ! 1)),
                 ResponseSize = 0,
                 UserAgent = [], PodName = podName, ContainerName = containerName\<rparr>)
      | None \<Rightarrow>
     (case FindStringSubmatch statusCodePattern line of
        Some matches \<Rightarrow>
          if length matches \<le> 1 then Inl IndexOutOfRange
          else Inr (Some \<lparr>Timestamp = [], Method = [], Path = [],
                 StatusCode = fst (Atoi (matches ! 1)),
                 ResponseSize = 0,
                 UserAgent = [], PodName = podName, ContainerName = containerName\<rparr>)
      | None \<Rightarrow> Inr None))))"

subsection \<open>\<^verbatim>\<open>updateMetrics\<close> and the line loop\<close>

text \<open>The entry is the one behind the pointer; the caller passes no \<^verbatim>\<open>nil\<close>.\<close>

definition updateMetrics :: "HTTPLogExporter \<Rightarrow> LogEntry \<Rightarrow> HTTPLogExporter" where
  "updateMetrics e entry =
     (let statusCodeStr = Itoa (StatusCode entry);
          e1 = e\<lparr>httpRequestsTotal :=
                  Inc (httpRequestsTotal e)
                    [namespace e, PodName entry, ContainerName entry, statusCodeStr]\<rparr>
      in if 400 \<le> StatusCode entry \<and> StatusCode entry < 500
         then e1\<lparr>httpErrorsTotal :=
                  Inc (httpErrorsTotal e1)
                    [namespace e1, PodName entry, ContainerName entry, statusCodeStr,
                     ''4xx'']\<rparr>
         else if 500 \<le> StatusCode entry \<and> StatusCode entry < 600
         then e1\<lparr>httpErrorsTotal :=
                  Inc (httpErrorsTotal e1)
                    [namespace e1, PodName entry, ContainerName entry, statusCodeStr,
                     ''5xx'']\<rparr>
         else e1)"

text \<open>
  The body of the loop of \<^verbatim>\<open>scrapeContainerLogs\<close> over the lines of a container:
  \<^verbatim>\<open>if entry := e.parseLogLine(line, podName, containerName); entry != nil { e.updateMetrics(entry) }\<close>,
  and the loop itself.
\<close>

definition processLine ::
  "HTTPLogExporter \<Rightarrow> string \<Rightarrow> string \<Rightarrow> string \<Rightarrow> panic + HTTPLogExporter" where
  "processLine e line podName containerName =
     (case parseLogLine e line podName containerName of
        Inl err \<Rightarrow> Inl err
      | Inr None \<Rightarrow> Inr e
      | Inr (Some entry) \<Rightarrow> Inr (updateMetrics e entry))"

fun processLines ::
  "HTTPLogExporter \<Rightarrow> string list \<Rightarrow> string \<Rightarrow> string \<Rightarrow> panic + HTTPLogExporter" where
  "processLines e [] podName containerName = Inr e"
| "processLines e (line # lines) podName containerName =
     (case processLine e line podName containerName of
        Inl err \<Rightarrow> Inl err
      | Inr e' \<Rightarrow> processLines e' lines podName containerName)"

text \<open>
  \<^verbatim>\<open>NewHTTPLogExporter\<close> creates both counter families without any series; the
  namespace, read from the environment there, is a parameter here.
\<close>

definition NewHTTPLogExporter :: "string \<Rightarrow> HTTPLogExporter" where
  "NewHTTPLogExporter ns =
     \<lparr>namespace = ns, httpErrorsTotal = Map.empty, httpRequestsTotal = Map.empty\<rparr>"

subsection \<open>Notions used in the statements\<close>

text \<open>
  What it means for a list of pieces to be a parse of a pattern: every token consumed a
  piece it accepts, and the assertions hold where they stand. \<open>rest\<close> is the text after
  the match; \<open>lastO prev p\<close> is the character before the position reached after \<open>p\<close>.
\<close>

definition lastO :: "char option \<Rightarrow> string \<Rightarrow> char option" where
  "lastO prev p = (if p = [] then prev else Some (last p))"

fun parses :: "item list \<Rightarrow> char option \<Rightarrow> string list \<Rightarrow> string \<Rightarrow> bool" where
  "parses [] prev ps rest = (ps = [])"
| "parses (i # is) prev [] rest = False"
| "parses (BeginText # is) prev (p # ps) rest =
     (p = [] \<and> prev = None \<and> parses is prev ps rest)"
| "parses (WordBoundary # is) prev (p # ps) rest =
     (p = [] \<and> isWordO prev \<noteq> isWordO (first (concat ps @ rest)) \<and> parses is prev ps rest)"
| "parses (Open # is) prev (p # ps) rest = (p = [] \<and> parses is prev ps rest)"
| "parses (Close # is) prev (p # ps) rest = (p = [] \<and> parses is prev ps rest)"
| "parses (Rep c lo hi # is) prev (p # ps) rest =
     (lo \<le> length p \<and> (case hi of None \<Rightarrow> True | Some h \<Rightarrow> length p \<le> h)
      \<and> list_all (cmatch c) p \<and> parses is (lastO prev p) ps rest)"

text \<open>Runs of digits, of white space and of other characters.\<close>

definition digits :: "string \<Rightarrow> bool" where
  "digits s = (s \<noteq> [] \<and> list_all isDigit s)"

definition spaces :: "string \<Rightarrow> bool" where
  "spaces s = list_all isSpace s"

definition nonspaces :: "string \<Rightarrow> bool" where
  "nonspaces s = (s \<noteq> [] \<and> list_all (\<lambda>c. \<not> isSpace c) s)"

text \<open>The key of the third strategy, with its double quotes: \<^verbatim>\<open>"status"\<close>.\<close>

definition statusKey :: string where
  "statusKey = CHR 0x22 # ''status'' @ [CHR 0x22]"

text \<open>
  A standalone error token at the front of \<open>s\<close>: three digits, the first a 4 or a 5,
  with no word character before (\<open>prev\<close>) or after. \<open>tokenAt line i\<close> says that such a
  token starts at index \<open>i\<close> of the line.
\<close>

definition statusToken :: "char option \<Rightarrow> string \<Rightarrow> bool" where
  "statusToken prev s =
     (case s of
        a # b # c # rest \<Rightarrow>
          (a = CHR ''4'' \<or> a = CHR ''5'') \<and> isDigit b \<and> isDigit c
          \<and> \<not> isWordO prev \<and> \<not> isWordO (first rest)
      | _ \<Rightarrow> False)"

definition charBefore :: "string \<Rightarrow> nat \<Rightarrow> char option" where
  "charBefore line i = (if i = 0 then None else Some (line ! (i - 1)))"

definition tokenAt :: "string \<Rightarrow> nat \<Rightarrow> bool" where
  "tokenAt line i = (i + 3 \<le> length line \<and> statusToken (charBefore line i) (drop i line))"

section \<open>Properties\<close>

subsection \<open>The matcher finds exactly the parses\<close>

lemma lastO_Nil [simp]: "lastO prev [] = prev"
  by (simp add: lastO_def)

lemma lastO_Cons [simp]: "lastO prev (x # p) = lastO (Some x) p"
  by (simp add: lastO_def)

lemma lastO_append [simp]: "lastO prev (p @ q) = lastO (lastO prev p) q"
  by (simp add: lastO_def)

lemma matchHere_sound:
  "matchHere is prev s = Some ps \<Longrightarrow> \<exists>rest. s = concat ps @ rest \<and> parses is prev ps rest"
proof (induction "is" prev s arbitrary: ps rule: matchHere.induct)
  case (7 c lo hi "is" prev x xs)
  show ?case
  proof (cases "hi \<noteq> Some 0 \<and> cmatch c x")
    case True
    show ?thesis
    proof (cases "matchHere (Rep c (lo - 1) (map_option (\<lambda>h. h - 1) hi) # is) (Some x) xs")
      case None
      with True 7 show ?thesis by (auto split: if_splits option.splits)
    next
      case (Some qs)
      show ?thesis
      proof (cases qs)
        case Nil
        with Some True 7 show ?thesis by (auto split: if_splits option.splits)
      next
        case (Cons q qs')
        from "7.IH"(1)[OF True Some] obtain rest where
          r: "xs = concat qs @ rest" "parses (Rep c (lo - 1) (map_option (\<lambda>h. h - 1) hi) # is) (Some x) qs rest"
          by blast
        from Some Cons True "7.prems" have ps: "ps = (x # q) # qs'" by simp
        from r Cons True show ?thesis unfolding ps
          by (cases hi) (auto)
      qed
    qed
  next
    case False
    with 7 show ?thesis by (auto split: if_splits option.splits)
  qed
qed (auto split: if_splits option.splits)

lemma matchHere_length: "matchHere is prev s = Some ps \<Longrightarrow> length ps = length is"
  by (induction "is" prev s arbitrary: ps rule: matchHere.induct)
     (auto split: if_splits option.splits list.splits)

lemma parses_BeginText:
  "parses (BeginText # is) prev ps rest \<longleftrightarrow>
     (\<exists>ps'. ps = [] # ps' \<and> prev = None \<and> parses is prev ps' rest)"
  by (cases ps) auto

lemma parses_WordBoundary:
  "parses (WordBoundary # is) prev ps rest \<longleftrightarrow>
     (\<exists>ps'. ps = [] # ps' \<and> isWordO prev \<noteq> isWordO (first (concat ps' @ rest))
        \<and> parses is prev ps' rest)"
  by (cases ps) auto

lemma parses_Open:
  "parses (Open # is) prev ps rest \<longleftrightarrow> (\<exists>ps'. ps = [] # ps' \<and> parses is prev ps' rest)"
  by (cases ps) auto

lemma parses_Close:
  "parses (Close # is) prev ps rest \<longleftrightarrow> (\<exists>ps'. ps = [] # ps' \<and> parses is prev ps' rest)"
  by (cases ps) auto

lemma parses_Rep:
  "parses (Rep c lo hi # is) prev ps rest \<longleftrightarrow>
     (\<exists>p ps'. ps = p # ps' \<and> lo \<le> length p
        \<and> (case hi of None \<Rightarrow> True | Some h \<Rightarrow> length p \<le> h)
        \<and> list_all (cmatch c) p \<and> parses is (lastO prev p) ps' rest)"
  by (cases ps) auto

lemmas parses_iff = parses_BeginText parses_WordBoundary parses_Open parses_Close parses_Rep

lemma matchHere_complete:
  "parses is prev ps rest \<Longrightarrow> s = concat ps @ rest \<Longrightarrow> matchHere is prev s \<noteq> None"
proof (induction "is" prev s arbitrary: ps rule: matchHere.induct)
  case (7 c lo hi "is" prev x xs)
  from "7.prems" obtain p ps' where ps: "ps = p # ps'" by (cases ps) auto
  show ?case
  proof (cases p)
    case Nil
    with ps "7.prems" have lo: "lo = 0" and rest: "parses is prev ps' rest" "x # xs = concat ps' @ rest"
      by auto
    show ?thesis
    proof (cases "hi \<noteq> Some 0 \<and> cmatch c x")
      case True
      show ?thesis
      proof (cases "matchHere (Rep c (lo - 1) (map_option (\<lambda>h. h - 1) hi) # is) (Some x) xs")
        case None
        with True have "(if hi \<noteq> Some 0 \<and> cmatch c x
            then matchHere (Rep c (lo - 1) (map_option (\<lambda>h. h - 1) hi) # is) (Some x) xs
            else None) = None" by simp
        from "7.IH"(2)[OF this lo rest] None True lo show ?thesis by auto
      next
        case (Some qs)
        show ?thesis
        proof (cases qs)
          case Nil
          from Some True have "(if hi \<noteq> Some 0 \<and> cmatch c x
            then matchHere (Rep c (lo - 1) (map_option (\<lambda>h. h - 1) hi) # is) (Some x) xs
            else None) = Some qs" by simp
          from "7.IH"(3)[OF this Nil lo rest] Some Nil True lo show ?thesis by auto
        next
          case (Cons q qs')
          with Some True show ?thesis by simp
        qed
      qed
    next
      case False
      from False have "(if hi \<noteq> Some 0 \<and> cmatch c x
            then matchHere (Rep c (lo - 1) (map_option (\<lambda>h. h - 1) hi) # is) (Some x) xs
            else None) = None" by auto
      from "7.IH"(2)[OF this lo rest] False lo show ?thesis by auto
    qed
  next
    case (Cons y p')
    with ps "7.prems" have xy: "y = x" and xs: "xs = concat (p' # ps') @ rest"
      and cm: "cmatch c x" and hi: "hi \<noteq> Some 0"
      and inner: "parses (Rep c (lo - 1) (map_option (\<lambda>h. h - 1) hi) # is) (Some x) (p' # ps') rest"
      by (auto split: option.splits)
    from "7.IH"(1)[OF _ inner xs] cm hi obtain qs where
      q: "matchHere (Rep c (lo - 1) (map_option (\<lambda>h. h - 1) hi) # is) (Some x) xs = Some qs"
      by auto
    from matchHere_length[OF q] obtain q' qs' where "qs = q' # qs'" by (cases qs) auto
    with q cm hi show ?thesis by simp
  qed
qed (auto simp: parses_iff)

lemma search_Some:
  "search is prev s = Some ps \<Longrightarrow>
   \<exists>pre suf. s = pre @ suf \<and> matchHere is (lastO prev pre) suf = Some ps
     \<and> (\<forall>pre' suf'. s = pre' @ suf' \<and> length pre' < length pre
            \<longrightarrow> matchHere is (lastO prev pre') suf' = None)"
proof (induction s arbitrary: prev)
  case Nil
  then show ?case by simp
next
  case (Cons x xs)
  show ?case
  proof (cases "matchHere is prev (x # xs)")
    case (Some qs)
    with Cons.prems have "matchHere is (lastO prev []) (x # xs) = Some ps" by simp
    then show ?thesis by (intro exI[of _ "[]"] exI[of _ "x # xs"]) simp
  next
    case None
    with Cons.prems have "search is (Some x) xs = Some ps" by simp
    from Cons.IH[OF this] obtain pre suf where
      h: "xs = pre @ suf" "matchHere is (lastO (Some x) pre) suf = Some ps"
         "\<forall>pre' suf'. xs = pre' @ suf' \<and> length pre' < length pre
            \<longrightarrow> matchHere is (lastO (Some x) pre') suf' = None"
      by blast
    have "\<forall>pre' suf'. x # xs = pre' @ suf' \<and> length pre' < length (x # pre)
            \<longrightarrow> matchHere is (lastO prev pre') suf' = None"
    proof (intro allI impI)
      fix pre' suf'
      assume a: "x # xs = pre' @ suf' \<and> length pre' < length (x # pre)"
      show "matchHere is (lastO prev pre') suf' = None"
      proof (cases pre')
        case Nil
        with a None show ?thesis by simp
      next
        case (Cons y pre'')
        with a h(3) show ?thesis by simp
      qed
    qed
    with h(1,2) show ?thesis
      by (intro exI[of _ "x # pre"] exI[of _ suf]) simp
  qed
qed

lemma search_None:
  "search is prev (pre @ suf) = None \<Longrightarrow> matchHere is (lastO prev pre) suf = None"
proof (induction pre arbitrary: prev)
  case Nil
  then show ?case by (cases suf) (auto split: option.splits)
next
  case (Cons x pre)
  then show ?case by (auto split: option.splits)
qed

lemma search_leftmost:
  "matchHere is (lastO prev pre) suf = Some ps \<Longrightarrow>
   (\<forall>pre' suf'. pre @ suf = pre' @ suf' \<and> length pre' < length pre
      \<longrightarrow> matchHere is (lastO prev pre') suf' = None) \<Longrightarrow>
   search is prev (pre @ suf) = Some ps"
proof (induction pre arbitrary: prev)
  case Nil
  then show ?case by (cases suf) (auto split: option.splits)
next
  case (Cons x pre)
  from Cons.prems(2) have "matchHere is (lastO prev []) ((x # pre) @ suf) = None"
    by (metis length_greater_0_conv list.simps(3) append_Nil list.size(3))
  then have n: "matchHere is prev (x # pre @ suf) = None" by simp
  have "\<forall>pre' suf'. pre @ suf = pre' @ suf' \<and> length pre' < length pre
      \<longrightarrow> matchHere is (lastO (Some x) pre') suf' = None"
  proof (intro allI impI)
    fix pre' suf'
    assume a: "pre @ suf = pre' @ suf' \<and> length pre' < length pre"
    then have "(x # pre) @ suf = (x # pre') @ suf' \<and> length (x # pre') < length (x # pre)" by simp
    with Cons.prems(2) have "matchHere is (lastO prev (x # pre')) suf' = None" by blast
    then show "matchHere is (lastO (Some x) pre') suf' = None" by simp
  qed
  with Cons.IH[of "Some x"] Cons.prems(1) have "search is (Some x) (pre @ suf) = Some ps" by simp
  with n show ?case by simp
qed

lemma groups_length:
  "length ps = length is \<Longrightarrow> length (groups is ps) = length (filter (\<lambda>i. i = Open) is)"
  by (induction "is" ps rule: groups.induct) auto

subsection \<open>Metric aggregation\<close>

declare digitsOf.simps [simp del]

lemma counterValue_Inc: "counterValue (Inc v k) k = counterValue v k + 1"
  by (simp add: Inc_def counterValue_def)

lemma Inc_other: "k' \<noteq> k \<Longrightarrow> Inc v k k' = v k'"
  by (simp add: Inc_def)

lemma Itoa_404: "Itoa 404 = ''404''"
  by code_simp

text \<open>
  Claim C1. For every log entry, \<^verbatim>\<open>updateMetrics\<close> adds exactly 1 to the one series of
  \<^verbatim>\<open>httpRequestsTotal\<close> labelled with the namespace, the pod, the container and the
  decimal status code, and leaves every other series of that family as it was. A series
  of \<^verbatim>\<open>httpErrorsTotal\<close> is incremented, by exactly 1, if and only if
  \<open>400 \<le> StatusCode < 600\<close>; its error class is \<^verbatim>\<open>4xx\<close> below 500 and \<^verbatim>\<open>5xx\<close> from
  500 on, and otherwise the family is unchanged.
\<close>

theorem updateMetrics_counters:
  "let k = [namespace e, PodName entry, ContainerName entry, Itoa (StatusCode entry)];
       cls = (if StatusCode entry < 500 then ''4xx'' else ''5xx'');
       e' = updateMetrics e entry
   in namespace e' = namespace e
      \<and> counterValue (httpRequestsTotal e') k = counterValue (httpRequestsTotal e) k + 1
      \<and> (\<forall>k'. k' \<noteq> k \<longrightarrow> httpRequestsTotal e' k' = httpRequestsTotal e k')
      \<and> (if 400 \<le> StatusCode entry \<and> StatusCode entry < 600
          then counterValue (httpErrorsTotal e') (k @ [cls])
                 = counterValue (httpErrorsTotal e) (k @ [cls]) + 1
               \<and> (\<forall>k'. k' \<noteq> k @ [cls] \<longrightarrow> httpErrorsTotal e' k' = httpErrorsTotal e k')
          else httpErrorsTotal e' = httpErrorsTotal e)"
  by (simp add: updateMetrics_def Let_def counterValue_Inc Inc_other)

theorem updateMetrics_counters_witness:
  "counterValue (httpRequestsTotal (updateMetrics (NewHTTPLogExporter ''default'')
       \<lparr>Timestamp = [], Method = [], Path = [], StatusCode = 404, ResponseSize = 0,
        UserAgent = [], PodName = ''web-pod'', ContainerName = ''nginx''\<rparr>))
     [''default'', ''web-pod'', ''nginx'', ''404''] = 1
   \<and> httpRequestsTotal (updateMetrics (NewHTTPLogExporter ''default'')
       \<lparr>Timestamp = [], Method = [], Path = [], StatusCode = 404, ResponseSize = 0,
        UserAgent = [], PodName = ''web-pod'', ContainerName = ''nginx''\<rparr>)
     [''default'', ''web-pod'', ''nginx'', ''200''] = None
   \<and> counterValue (httpErrorsTotal (updateMetrics (NewHTTPLogExporter ''default'')
       \<lparr>Timestamp = [], Method = [], Path = [], StatusCode = 404, ResponseSize = 0,
        UserAgent = [], PodName = ''web-pod'', ContainerName = ''nginx''\<rparr>))
     [''default'', ''web-pod'', ''nginx'', ''404'', ''4xx''] = 1
   \<and> httpErrorsTotal (updateMetrics (NewHTTPLogExporter ''default'')
       \<lparr>Timestamp = [], Method = [], Path = [], StatusCode = 404, ResponseSize = 0,
        UserAgent = [], PodName = ''web-pod'', ContainerName = ''nginx''\<rparr>)
     [''default'', ''web-pod'', ''nginx'', ''404'', ''5xx''] = None"
  using updateMetrics_counters [of "NewHTTPLogExporter ''default''"
       "\<lparr>Timestamp = [], Method = [], Path = [], StatusCode = 404, ResponseSize = 0,
        UserAgent = [], PodName = ''web-pod'', ContainerName = ''nginx''\<rparr>"]
  by (simp add: Let_def Itoa_404 NewHTTPLogExporter_def counterValue_def)

subsection \<open>Purity of the parser\<close>


end
